theory Spec2Isabelle
  imports Main
begin

section \<open>Data model\<close>

text \<open>
  A tab record as the host's tab API hands it to the extension. The code reads
  \<^verbatim>\<open>tab.id\<close>, \<^verbatim>\<open>tab.windowId\<close>, \<^verbatim>\<open>tab.title\<close>, \<^verbatim>\<open>tab.favIconUrl\<close>, \<^verbatim>\<open>tab.audible\<close> and
  \<^verbatim>\<open>tab.mutedInfo.muted\<close>. The field \<^verbatim>\<open>mutedInfo\<close> may be missing from a record
  (popup.js line 80 tests it before reading \<^verbatim>\<open>muted\<close>), so it is optional here; a
  record without it is \<^verbatim>\<open>undefined\<close> at \<^verbatim>\<open>tab.mutedInfo\<close>.
\<close>

record mutedInfo =
  muted :: bool

record tab =
  tab_id :: int
  windowId :: int
  title :: string
  favIconUrl :: "string option"
  audible :: bool
  active :: bool
  mutedInfo :: "mutedInfo option"

text \<open>
  The values a promise of the adapter is rejected with, or that a statement throws:
  the host's \<^verbatim>\<open>runtime.lastError\<close> object, an \<^verbatim>\<open>Error\<close> built by the adapter, and the
  \<^verbatim>\<open>TypeError\<close> of reading a property of \<^verbatim>\<open>undefined\<close>. Each carries its message.
\<close>

datatype error = LastError string | Error string | TypeError string

fun message :: "error \<Rightarrow> string" where
  "message (LastError m) = m"
| "message (Error m) = m"
| "message (TypeError m) = m"

text \<open>
  An adapter operation whose host callback only tests \<^verbatim>\<open>lastError\<close> and passes the
  reply on always settles; its promise is a value of \<open>error + 'a\<close> (\<open>Inl\<close> rejected,
  \<open>Inr\<close> resolved). \<^verbatim>\<open>toggleMuteState\<close> and \<^verbatim>\<open>setMuteState\<close> read
  \<^verbatim>\<open>mutedInfo.muted\<close> inside the host callback. A \<^verbatim>\<open>TypeError\<close> there is thrown in the
  callback, after the promise executor has returned, so neither \<^verbatim>\<open>resolve\<close> nor
  \<^verbatim>\<open>reject\<close> is ever called: the promise stays pending. Their promises have this
  third outcome.
\<close>

datatype 'a promise = Resolved 'a | Rejected error | Pending

section \<open>The host platform\<close>

text \<open>
  Modelled from the spec: the host's tab table with its query, get and update
  operations (spec sections 3, 6 and 7), which the browser provides and the repository
  only calls. The table is the list of tabs in the host's order. A query answers with
  the matching tabs or fails; get and update of an identifier that no tab has fail;
  an update of the muted flag stores the flag and answers with the updated record.
  \<open>query_errors\<close> and \<open>update_errors\<close> list the requests the host currently answers
  with \<^verbatim>\<open>runtime.lastError\<close> set (for example an update of a tab that cannot be
  edited at the moment), each with the message of the error.
\<close>

datatype queryInfo = AllTabs | AudibleTabs | ActiveInCurrentWindow

record host =
  tabs :: "tab list"
  currentWindow :: int
  query_errors :: "(queryInfo \<times> string) list"
  update_errors :: "(int \<times> string) list"

fun matches :: "host \<Rightarrow> queryInfo \<Rightarrow> tab \<Rightarrow> bool" where
  "matches h AllTabs t = True"
| "matches h AudibleTabs t = audible t"
| "matches h ActiveInCurrentWindow t = (active t \<and> windowId t = currentWindow h)"

definition chrome_tabs_query :: "queryInfo \<Rightarrow> host \<Rightarrow> string + tab list" where
  "chrome_tabs_query q h =
     (case map_of (query_errors h) q of
        Some m \<Rightarrow> Inl m
      | None \<Rightarrow> Inr (filter (matches h q) (tabs h)))"

definition no_tab :: string where
  "no_tab = ''No tab with id''"

definition chrome_tabs_get :: "int \<Rightarrow> host \<Rightarrow> string + tab" where
  "chrome_tabs_get i h =
     (case find (\<lambda>t. tab_id t = i) (tabs h) of
        None \<Rightarrow> Inl no_tab
      | Some t \<Rightarrow> Inr t)"

definition set_muted :: "bool \<Rightarrow> tab \<Rightarrow> tab" where
  "set_muted m t = t\<lparr>mutedInfo := Some \<lparr>muted = m\<rparr>\<rparr>"

definition chrome_tabs_update :: "int \<Rightarrow> bool \<Rightarrow> host \<Rightarrow> (string + tab) \<times> host" where
  "chrome_tabs_update i m h =
     (case map_of (update_errors h) i of
        Some msg \<Rightarrow> (Inl msg, h)
      | None \<Rightarrow>
          (case find (\<lambda>t. tab_id t = i) (tabs h) of
             None \<Rightarrow> (Inl no_tab, h)
           | Some t \<Rightarrow>
               (Inr (set_muted m t),
                h\<lparr>tabs := map (\<lambda>t. if tab_id t = i then set_muted m t else t) (tabs h)\<rparr>)))"

text \<open>The muted flag the host holds for a tab identifier, if it holds one.\<close>

definition muted_of :: "int \<Rightarrow> host \<Rightarrow> bool option" where
  "muted_of i h =
     (case find (\<lambda>t. tab_id t = i) (tabs h) of
        None \<Rightarrow> None
      | Some t \<Rightarrow> map_option muted (mutedInfo t))"

section \<open>browser-adapter.js\<close>

definition getAllTabs :: "host \<Rightarrow> error + tab list" where
  "getAllTabs h =
     (case chrome_tabs_query AllTabs h of
        Inl m \<Rightarrow> Inl (LastError m)
      | Inr ts \<Rightarrow> Inr ts)"

definition getSoundTabs :: "host \<Rightarrow> error + tab list" where
  "getSoundTabs h =
     (case chrome_tabs_query AudibleTabs h of
        Inl m \<Rightarrow> Inl (LastError m)
      | Inr ts \<Rightarrow> Inr ts)"

definition no_active_tab :: error where
  "no_active_tab = Error ''No active tab found''"

definition getCurrentTab :: "host \<Rightarrow> error + tab" where
  "getCurrentTab h =
     (case chrome_tabs_query ActiveInCurrentWindow h of
        Inl m \<Rightarrow> Inl (LastError m)
      | Inr [] \<Rightarrow> Inl no_active_tab
      | Inr (t # ts) \<Rightarrow> Inr t)"

definition undefined_muted :: error where
  "undefined_muted = TypeError ''Cannot read properties of undefined (reading 'muted')''"

text \<open>
  \<^verbatim>\<open>toggleMuteState\<close>: get the tab, negate its flag, update, resolve with the flag of
  the updated record. The model returns the promise's outcome and the host after the
  call.
\<close>

definition toggleMuteState :: "int \<Rightarrow> host \<Rightarrow> bool promise \<times> host" where
  "toggleMuteState tabId h =
     (case chrome_tabs_get tabId h of
        Inl m \<Rightarrow> (Rejected (LastError m), h)
      | Inr t \<Rightarrow>
          (case mutedInfo t of
             None \<Rightarrow> (Pending, h)
           | Some mi \<Rightarrow>
               (let newMuteState = \<not> muted mi in
                case chrome_tabs_update tabId newMuteState h of
                  (Inl m, h') \<Rightarrow> (Rejected (LastError m), h')
                | (Inr updatedTab, h') \<Rightarrow>
                    (case mutedInfo updatedTab of
                       None \<Rightarrow> (Pending, h')
                     | Some mi' \<Rightarrow> (Resolved (muted mi'), h')))))"

definition setMuteState :: "int \<Rightarrow> bool \<Rightarrow> host \<Rightarrow> bool promise \<times> host" where
  "setMuteState tabId m h =
     (case chrome_tabs_update tabId m h of
        (Inl msg, h') \<Rightarrow> (Rejected (LastError msg), h')
      | (Inr updatedTab, h') \<Rightarrow>
          (case mutedInfo updatedTab of
             None \<Rightarrow> (Pending, h')
           | Some mi \<Rightarrow> (Resolved (muted mi), h')))"

text \<open>
  \<^verbatim>\<open>allTabs.map(tab => this.setMuteState(tab.id, m))\<close>: every update is requested
  before any reply is read, and the host serves them in the order of the requests.
  An update that fails leaves the later ones in flight; they are applied all the same.
\<close>

fun setMuteState_map :: "bool \<Rightarrow> tab list \<Rightarrow> host \<Rightarrow> bool promise list \<times> host" where
  "setMuteState_map m [] h = ([], h)"
| "setMuteState_map m (t # ts) h =
     (let (p, h1) = setMuteState (tab_id t) m h;
          (ps, h2) = setMuteState_map m ts h1
      in (p # ps, h2))"

text \<open>
  \<^verbatim>\<open>Promise.all\<close>: rejected as soon as one member is rejected (the replies arrive in
  the order of the requests, so with the first rejected member's error), resolved with
  the list of values once every member is resolved, pending otherwise.
\<close>

fun Promise_all :: "'a promise list \<Rightarrow> 'a list promise" where
  "Promise_all [] = Resolved []"
| "Promise_all (Rejected e # ps) = Rejected e"
| "Promise_all (Resolved v # ps) =
     (case Promise_all ps of
        Resolved vs \<Rightarrow> Resolved (v # vs)
      | Rejected e \<Rightarrow> Rejected e
      | Pending \<Rightarrow> Pending)"
| "Promise_all (Pending # ps) =
     (case Promise_all ps of
        Rejected e \<Rightarrow> Rejected e
      | _ \<Rightarrow> Pending)"

definition muteAllExcept :: "int \<Rightarrow> host \<Rightarrow> bool list promise \<times> host" where
  "muteAllExcept exceptTabId h =
     (case getAllTabs h of
        Inl e \<Rightarrow> (Rejected e, h)
      | Inr allTabs \<Rightarrow>
          (let (updatePromises, h') =
                 setMuteState_map True (filter (\<lambda>t. tab_id t \<noteq> exceptTabId) allTabs) h
           in (Promise_all updatePromises, h')))"

definition muteAll :: "host \<Rightarrow> bool list promise \<times> host" where
  "muteAll h =
     (case getAllTabs h of
        Inl e \<Rightarrow> (Rejected e, h)
      | Inr allTabs \<Rightarrow>
          (let (updatePromises, h') = setMuteState_map True allTabs h
           in (Promise_all updatePromises, h')))"

definition unmuteAll :: "host \<Rightarrow> bool list promise \<times> host" where
  "unmuteAll h =
     (case getAllTabs h of
        Inl e \<Rightarrow> (Rejected e, h)
      | Inr allTabs \<Rightarrow>
          (let (updatePromises, h') = setMuteState_map False allTabs h
           in (Promise_all updatePromises, h')))"

section \<open>popup.js\<close>

text \<open>
  src/popup.js holds two variants of the script; the model follows the first, the one
  with the global button, as the spec does. The second is the first without the global
  button and without line 202.

  The document of the popup, as far as the script touches it: the children of
  \<^verbatim>\<open>#tabs-list\<close>, the text and the \<^verbatim>\<open>unmute\<close> class of \<^verbatim>\<open>#global-mute-button\<close>,
  whether its click listener is registered, and what was written with
  \<^verbatim>\<open>console.error\<close>. A row is the \<^verbatim>\<open>div.tab-item\<close> that \<^verbatim>\<open>createTabElement\<close> builds.
\<close>

record row =
  dataset_tabId :: int
  favicon_src :: string
  title_textContent :: string
  title_title :: string
  muteButton_title :: string
  muteIcon_src :: string

datatype element = NoSoundTabs string | TabItem row | ErrorDiv string | Markup string

text \<open>
  The state of one popup session: the three variables of the script (lines 9 to 11),
  the document, and \<open>suspended\<close>: the calls of \<^verbatim>\<open>checkAllTabsMutedState\<close> that have
  reached their \<^verbatim>\<open>await\<close> and wait for the reply to their query, each with that reply,
  oldest first.
\<close>

record popup =
  currentTab :: "tab option"
  allTabsMuted :: bool
  soundTabs :: "tab list"
  tabsList :: "element list"
  globalMuteButton_textContent :: string
  globalMuteButton_unmute :: bool
  globalMuteButton_onclick :: bool
  console_error :: "(string \<times> error) list"
  suspended :: "(error + tab list) list"

text \<open>
  The session when the document has loaded: the variables as lines 9 to 11 set them,
  the document as popup.html (not part of the sources) gives it.
\<close>

definition popup_loaded :: "element list \<Rightarrow> string \<Rightarrow> bool \<Rightarrow> popup" where
  "popup_loaded children text unmute =
     \<lparr>currentTab = None, allTabsMuted = False, soundTabs = [],
      tabsList = children, globalMuteButton_textContent = text,
      globalMuteButton_unmute = unmute, globalMuteButton_onclick = False,
      console_error = [], suspended = []\<rparr>"

text \<open>
  \<^verbatim>\<open>checkAllTabsMutedState\<close> is an async function. Called, it runs to its \<^verbatim>\<open>await\<close>:
  the query is sent and the call is suspended. Its body after the \<^verbatim>\<open>await\<close>
  (\<open>checkAllTabsMutedState_resume\<close>) runs with the reply, and never before the
  synchronous code of the caller has finished.
\<close>

definition checkAllTabsMutedState :: "host \<Rightarrow> popup \<Rightarrow> popup" where
  "checkAllTabsMutedState h st = st\<lparr>suspended := suspended st @ [getAllTabs h]\<rparr>"

definition checkAllTabsMutedState_resume :: "error + tab list \<Rightarrow> popup \<Rightarrow> popup" where
  "checkAllTabsMutedState_resume reply st =
     (case reply of
        Inr allTabs \<Rightarrow>
          st\<lparr>allTabsMuted :=
               (length allTabs > 0 \<and>
                list_all (\<lambda>tab. case mutedInfo tab of None \<Rightarrow> False | Some mi \<Rightarrow> muted mi)
                  allTabs)\<rparr>
      | Inl e \<Rightarrow>
          st\<lparr>console_error := console_error st @ [(''Error checking muted state:'', e)],
              allTabsMuted := False\<rparr>)"

text \<open>Every suspended call is resumed with its reply, oldest first.\<close>

definition settle :: "popup \<Rightarrow> popup" where
  "settle st = fold checkAllTabsMutedState_resume (suspended st) (st\<lparr>suspended := []\<rparr>)"

text \<open>
  \<^verbatim>\<open>updateGlobalMuteButton\<close> calls \<^verbatim>\<open>checkAllTabsMutedState()\<close> without \<^verbatim>\<open>await\<close> and
  goes on to read \<^verbatim>\<open>allTabsMuted\<close> in the same synchronous run.
\<close>

definition updateGlobalMuteButton :: "host \<Rightarrow> popup \<Rightarrow> popup" where
  "updateGlobalMuteButton h st =
     (let st1 = checkAllTabsMutedState h st in
      if allTabsMuted st1 then
        st1\<lparr>globalMuteButton_textContent := ''Unmute all'', globalMuteButton_unmute := True\<rparr>
      else
        (let st2 =
           (if (case currentTab st1 of None \<Rightarrow> False | Some t \<Rightarrow> audible t)
            then st1\<lparr>globalMuteButton_textContent := ''Mute others''\<rparr>
            else st1\<lparr>globalMuteButton_textContent := ''Mute all''\<rparr>)
         in st2\<lparr>globalMuteButton_unmute := False\<rparr>))"

definition default_favicon :: string where
  "default_favicon = ''icons/default-favicon.png''"

text \<open>
  \<^verbatim>\<open>createTabElement\<close> reads \<^verbatim>\<open>tab.mutedInfo.muted\<close> unguarded (line 165): on a record
  without \<^verbatim>\<open>mutedInfo\<close> it throws. \<^verbatim>\<open>tab.favIconUrl || default\<close> takes the default for
  a missing and for an empty URL.
\<close>

definition createTabElement :: "tab \<Rightarrow> error + row" where
  "createTabElement tab =
     (case mutedInfo tab of
        None \<Rightarrow> Inl undefined_muted
      | Some mi \<Rightarrow>
          Inr \<lparr>dataset_tabId = tab_id tab,
               favicon_src =
                 (case favIconUrl tab of
                    None \<Rightarrow> default_favicon
                  | Some u \<Rightarrow> if u = [] then default_favicon else u),
               title_textContent = title tab,
               title_title = title tab,
               muteButton_title = (if muted mi then ''Unmute'' else ''Mute''),
               muteIcon_src = (if muted mi then ''icons/unmute.png'' else ''icons/mute.png'')\<rparr>)"

text \<open>
  The \<^verbatim>\<open>forEach\<close> of \<^verbatim>\<open>renderTabsList\<close>: each element is appended to the fragment; a
  throw ends the loop.
\<close>

fun forEach_tab :: "tab list \<Rightarrow> element list \<Rightarrow> error + element list" where
  "forEach_tab [] fragment = Inr fragment"
| "forEach_tab (tab # rest) fragment =
     (case createTabElement tab of
        Inl e \<Rightarrow> Inl e
      | Inr tabElement \<Rightarrow> forEach_tab rest (fragment @ [TabItem tabElement]))"

text \<open>
  \<^verbatim>\<open>renderTabsList\<close> returns the error it threw, if any, and the session at that
  point.
\<close>

definition renderTabsList :: "tab list \<Rightarrow> popup \<Rightarrow> error option \<times> popup" where
  "renderTabsList ts st =
     (let st1 = st\<lparr>tabsList := []\<rparr> in
      if length ts = 0 then (None, st1\<lparr>tabsList := [NoSoundTabs ''Everything's quiet.'']\<rparr>)
      else
        (case forEach_tab ts [] of
           Inl e \<Rightarrow> (Some e, st1)
         | Inr fragment \<Rightarrow> (None, st1\<lparr>tabsList := tabsList st1 @ fragment\<rparr>)))"

definition loadSoundTabs :: "host \<Rightarrow> popup \<Rightarrow> popup" where
  "loadSoundTabs h st =
     (case getSoundTabs h of
        Inl e \<Rightarrow>
          st\<lparr>console_error := console_error st @ [(''Error loading sound tabs:'', e)],
              tabsList := [ErrorDiv (''Error loading tabs: '' @ message e)]\<rparr>
      | Inr ts \<Rightarrow>
          (let st1 = st\<lparr>soundTabs := ts\<rparr> in
           case renderTabsList (soundTabs st1) st1 of
             (None, st2) \<Rightarrow> st2
           | (Some e, st2) \<Rightarrow>
               st2\<lparr>console_error := console_error st2 @ [(''Error loading sound tabs:'', e)],
                   tabsList := [ErrorDiv (''Error loading tabs: '' @ message e)]\<rparr>))"

definition initializePopup :: "host \<Rightarrow> popup \<Rightarrow> popup" where
  "initializePopup h st =
     (case getCurrentTab h of
        Inl e \<Rightarrow>
          st\<lparr>console_error := console_error st @ [(''Error initializing popup:'', e)],
              tabsList := [ErrorDiv (''Error: '' @ message e)]\<rparr>
      | Inr t \<Rightarrow>
          (let st1 = st\<lparr>currentTab := Some t\<rparr>;
               st2 = loadSoundTabs h st1;
               st3 = updateGlobalMuteButton h st2
           in st3\<lparr>globalMuteButton_onclick := True\<rparr>))"

definition handleGlobalMuteButtonClick :: "host \<Rightarrow> popup \<Rightarrow> host \<times> popup" where
  "handleGlobalMuteButtonClick h st =
     (let (p, h') =
        (if allTabsMuted st then unmuteAll h
         else
           (case currentTab st of
              None \<Rightarrow> muteAll h
            | Some t \<Rightarrow> if audible t then muteAllExcept (tab_id t) h else muteAll h))
      in case p of
           Rejected e \<Rightarrow>
             (h', st\<lparr>console_error := console_error st @ [(''Error handling global mute:'', e)]\<rparr>)
         | Pending \<Rightarrow> (h', st)
         | Resolved results \<Rightarrow> (h', updateGlobalMuteButton h' (loadSoundTabs h' st)))"

text \<open>
  \<^verbatim>\<open>toggleMute(tabId, button, icon)\<close>: the button and the icon are those of the row the
  click listener was made for; \<open>i\<close> is the position of that row among the children of
  the list.
\<close>

fun set_mute_control :: "bool \<Rightarrow> element \<Rightarrow> element" where
  "set_mute_control isMuted (TabItem r) =
     TabItem (r\<lparr>muteButton_title := (if isMuted then ''Unmute'' else ''Mute''),
                muteIcon_src := (if isMuted then ''icons/unmute.png'' else ''icons/mute.png'')\<rparr>)"
| "set_mute_control isMuted el = el"

definition toggleMute :: "int \<Rightarrow> nat \<Rightarrow> host \<Rightarrow> popup \<Rightarrow> host \<times> popup" where
  "toggleMute tabId i h st =
     (case toggleMuteState tabId h of
        (Rejected e, h') \<Rightarrow>
          (h', st\<lparr>console_error := console_error st @ [(''Error toggling mute state:'', e)]\<rparr>)
      | (Pending, h') \<Rightarrow> (h', st)
      | (Resolved isMuted, h') \<Rightarrow>
          (h', updateGlobalMuteButton h'
                 (st\<lparr>tabsList := (tabsList st)[i := set_mute_control isMuted (tabsList st ! i)]\<rparr>)))"

text \<open>
  The events of a session, each run until nothing is suspended: the document has
  loaded (with the children of the list, the text and the class of the global button as
  popup.html gives them), the global button is clicked, the mute button of row \<open>i\<close> is
  clicked. The click on a row itself, which asks the host to activate the tab and does
  not touch the session, is left out.
\<close>

definition DOMContentLoaded :: "host \<Rightarrow> element list \<Rightarrow> string \<Rightarrow> bool \<Rightarrow> popup" where
  "DOMContentLoaded h children text unmute =
     settle (initializePopup h (popup_loaded children text unmute))"

definition globalMuteButton_click :: "host \<Rightarrow> popup \<Rightarrow> host \<times> popup" where
  "globalMuteButton_click h st =
     (if globalMuteButton_onclick st
      then (let (h', st') = handleGlobalMuteButtonClick h st in (h', settle st'))
      else (h, st))"

definition muteButton_click :: "nat \<Rightarrow> host \<Rightarrow> popup \<Rightarrow> host \<times> popup" where
  "muteButton_click i h st =
     (if i < length (tabsList st) then
        (case tabsList st ! i of
           TabItem r \<Rightarrow> (let (h', st') = toggleMute (dataset_tabId r) i h st in (h', settle st'))
         | _ \<Rightarrow> (h, st))
      else (h, st))"

section \<open>Sample tabs, hosts and sessions\<close>

text \<open>
  The tabs of the spec's first scenario: an audible, unmuted, active tab "Music" and a
  silent muted tab; two muted tabs; and a record that lacks \<^verbatim>\<open>mutedInfo\<close>.
\<close>

definition tab_music :: tab where
  "tab_music = \<lparr>tab_id = 1, windowId = 1, title = ''Music'', favIconUrl = None,
                 audible = True, active = True, mutedInfo = Some \<lparr>muted = False\<rparr>\<rparr>"

definition tab_news :: tab where
  "tab_news = \<lparr>tab_id = 2, windowId = 1, title = ''News'', favIconUrl = Some [],
                audible = False, active = False, mutedInfo = Some \<lparr>muted = True\<rparr>\<rparr>"

definition tab_mail :: tab where
  "tab_mail = \<lparr>tab_id = 3, windowId = 1, title = ''Mail'', favIconUrl = None,
                audible = False, active = True, mutedInfo = Some \<lparr>muted = True\<rparr>\<rparr>"

definition tab_radio :: tab where
  "tab_radio = \<lparr>tab_id = 4, windowId = 1, title = ''Radio'', favIconUrl = Some ''radio.png'',
                 audible = True, active = False, mutedInfo = Some \<lparr>muted = True\<rparr>\<rparr>"

definition tab_bare :: tab where
  "tab_bare = \<lparr>tab_id = 5, windowId = 1, title = ''Bare'', favIconUrl = None,
                audible = True, active = False, mutedInfo = None\<rparr>"

definition tab_video :: tab where
  "tab_video = \<lparr>tab_id = 6, windowId = 1, title = ''Video'', favIconUrl = None,
                 audible = True, active = False, mutedInfo = Some \<lparr>muted = False\<rparr>\<rparr>"

definition host_of :: "tab list \<Rightarrow> host" where
  "host_of ts = \<lparr>tabs = ts, currentWindow = 1, query_errors = [], update_errors = []\<rparr>"

definition host_scenario :: host where
  "host_scenario = host_of [tab_music, tab_news]"

definition host_all_muted :: host where
  "host_all_muted = host_of [tab_mail, tab_radio]"

definition host_playing :: host where
  "host_playing = host_of [tab_music, tab_video]"

text \<open>The same tabs while the host refuses to edit tab 1.\<close>

definition host_busy :: host where
  "host_busy = \<lparr>tabs = [tab_music, tab_video], currentWindow = 1, query_errors = [],
                 update_errors = [(1, ''Tabs cannot be edited right now'')]\<rparr>"

definition host_empty :: host where
  "host_empty = host_of []"

text \<open>All tabs muted, while the host fails every query of all tabs.\<close>

definition host_offline :: host where
  "host_offline = \<lparr>tabs = [tab_mail, tab_radio], currentWindow = 1,
                    query_errors = [(AllTabs, ''Extension context invalidated'')],
                    update_errors = []\<rparr>"

definition doc_loading :: popup where
  "doc_loading = popup_loaded [Markup ''Loading...''] [] False"

text \<open>The sessions after the popup has opened on two of the hosts.\<close>

definition popup_busy :: popup where
  "popup_busy = DOMContentLoaded host_busy [Markup ''Loading...''] [] False"

definition popup_all_muted :: popup where
  "popup_all_muted = DOMContentLoaded host_all_muted [Markup ''Loading...''] [] False"

lemmas sample_defs =
  tab_music_def tab_news_def tab_mail_def tab_radio_def tab_bare_def tab_video_def host_of_def
  host_scenario_def host_all_muted_def host_playing_def host_busy_def host_empty_def
  host_offline_def doc_loading_def popup_loaded_def

section \<open>Facts about the host\<close>

lemma tab_id_set_muted: "tab_id (set_muted m t) = tab_id t"
  by (simp add: set_muted_def)

lemma set_muted_idem: "set_muted m (set_muted m' t) = set_muted m t"
  by (simp add: set_muted_def)

lemma mutedInfo_set_muted: "mutedInfo (set_muted m t) = Some \<lparr>muted = m\<rparr>"
  by (simp add: set_muted_def)

lemma find_map_set_muted:
  "find (\<lambda>t. tab_id t = i) (map (\<lambda>t. if tab_id t = j then set_muted m t else t) ts) =
   map_option (\<lambda>t. if tab_id t = j then set_muted m t else t) (find (\<lambda>t. tab_id t = i) ts)"
  by (induction ts) (auto simp: tab_id_set_muted)

lemma find_map_by_id:
  "find (\<lambda>t. tab_id t = i) (map (\<lambda>t. if P (tab_id t) then set_muted m t else t) ts) =
   map_option (\<lambda>t. if P i then set_muted m t else t) (find (\<lambda>t. tab_id t = i) ts)"
  by (induction ts) (auto simp: tab_id_set_muted)

lemma find_tab_id: "find (\<lambda>t. tab_id t = i) ts = Some t \<Longrightarrow> tab_id t = i \<and> t \<in> set ts"
  by (induction ts) (auto split: if_splits)

lemma find_None_iff_id: "find (\<lambda>t. tab_id t = i) ts = None \<longleftrightarrow> i \<notin> tab_id ` set ts"
  by (induction ts) auto

lemma find_Some_id: "find (\<lambda>t. tab_id t = i) ts = Some t \<Longrightarrow> i \<in> tab_id ` set ts"
  by (induction ts) (auto split: if_splits)

lemma map_absent:
  "i \<notin> tab_id ` set ts \<Longrightarrow> map (\<lambda>t. if tab_id t = i then f t else t) ts = ts"
  by (induction ts) auto

lemma getAllTabs_Inr: "getAllTabs h = Inr allTabs \<Longrightarrow> allTabs = tabs h"
  by (auto simp: getAllTabs_def chrome_tabs_query_def split: option.splits)

section \<open>Facts about the adapter\<close>

lemma setMuteState_outcome:
  "fst (setMuteState i m h) =
     (case map_of (update_errors h) i of Some msg \<Rightarrow> Rejected (LastError msg)
      | None \<Rightarrow> if i \<in> tab_id ` set (tabs h) then Resolved m else Rejected (LastError no_tab))"
  by (auto simp: setMuteState_def chrome_tabs_update_def mutedInfo_set_muted find_None_iff_id
      split: option.splits dest: find_Some_id)

lemma setMuteState_host:
  "snd (setMuteState i m h) =
     h\<lparr>tabs := map (\<lambda>t. if tab_id t = i \<and> map_of (update_errors h) i = None then set_muted m t else t) (tabs h)\<rparr>"
  by (auto simp: setMuteState_def chrome_tabs_update_def mutedInfo_set_muted find_None_iff_id map_absent
      split: option.splits)

lemma setMuteState_ids:
  "map tab_id (tabs (snd (setMuteState i m h))) = map tab_id (tabs h)"
  by (simp add: setMuteState_host o_def tab_id_set_muted if_distrib cong: if_cong)

lemma setMuteState_errors:
  "update_errors (snd (setMuteState i m h)) = update_errors h"
  by (simp add: setMuteState_host)

lemma setMuteState_same_outcome:
  "fst (setMuteState j m (snd (setMuteState i m' h))) = fst (setMuteState j m h)"
proof -
  have "tab_id ` set (tabs (snd (setMuteState i m' h))) = set (map tab_id (tabs (snd (setMuteState i m' h))))"
    by simp
  also have "\<dots> = tab_id ` set (tabs h)"
    unfolding setMuteState_ids by simp
  finally show ?thesis
    by (simp add: setMuteState_outcome setMuteState_errors)
qed

lemma compose_updates:
  "(\<lambda>t. if tab_id t \<in> S \<and> map_of es (tab_id t) = None then set_muted m t else t) \<circ>
   (\<lambda>t. if tab_id t = j \<and> map_of es j = None then set_muted m t else t) =
   (\<lambda>t. if (tab_id t = j \<or> tab_id t \<in> S) \<and> map_of es (tab_id t) = None then set_muted m t else t)"
  by (auto simp: fun_eq_iff tab_id_set_muted set_muted_idem)

lemma setMuteState_map_host:
  "snd (setMuteState_map m ts h) =
     h\<lparr>tabs := map (\<lambda>t. if tab_id t \<in> tab_id ` set ts \<and> map_of (update_errors h) (tab_id t) = None
                        then set_muted m t else t) (tabs h)\<rparr>"
proof (induction ts arbitrary: h)
  case Nil
  show ?case by simp
next
  case (Cons a ts)
  let ?h1 = "snd (setMuteState (tab_id a) m h)"
  have "snd (setMuteState_map m (a # ts) h) = snd (setMuteState_map m ts ?h1)"
    by (simp add: split_beta Let_def)
  also have "\<dots> = ?h1\<lparr>tabs := map (\<lambda>t. if tab_id t \<in> tab_id ` set ts \<and> map_of (update_errors ?h1) (tab_id t) = None
                        then set_muted m t else t) (tabs ?h1)\<rparr>"
    by (rule Cons.IH)
  also have "\<dots> = h\<lparr>tabs := map (\<lambda>t. if tab_id t \<in> tab_id ` set (a # ts) \<and> map_of (update_errors h) (tab_id t) = None
                        then set_muted m t else t) (tabs h)\<rparr>"
    unfolding setMuteState_errors
    by (simp add: setMuteState_host compose_updates)
  finally show ?case .
qed

lemma setMuteState_map_outcomes:
  "fst (setMuteState_map m ts h) = map (\<lambda>t. fst (setMuteState (tab_id t) m h)) ts"
proof (induction ts arbitrary: h)
  case Nil
  show ?case by simp
next
  case (Cons a ts)
  let ?h1 = "snd (setMuteState (tab_id a) m h)"
  have "fst (setMuteState_map m (a # ts) h) = fst (setMuteState (tab_id a) m h) # fst (setMuteState_map m ts ?h1)"
    by (simp add: split_beta Let_def)
  then show ?case by (simp add: Cons.IH setMuteState_same_outcome)
qed

lemma Promise_all_Resolved:
  "Promise_all ps = Resolved bs \<Longrightarrow> ps = map Resolved bs"
proof (induction ps arbitrary: bs)
  case Nil
  then show ?case by simp
next
  case (Cons p ps)
  then show ?case
    by (cases p) (auto split: promise.splits)
qed

lemma Promise_all_map_Resolved: "Promise_all (map Resolved bs) = Resolved bs"
  by (induction bs) auto

lemma Promise_all_Rejected:
  "Rejected e \<in> set ps \<Longrightarrow> \<exists>e'. Promise_all ps = Rejected e'"
proof (induction ps)
  case Nil
  then show ?case by simp
next
  case (Cons p ps)
  then show ?case
    by (cases p) (auto split: promise.splits)
qed

lemma all_Resolved_map:
  "\<forall>p\<in>set ps. \<exists>b. p = Resolved b \<Longrightarrow> \<exists>bs. ps = map Resolved bs"
proof (induction ps)
  case Nil
  then show ?case by simp
next
  case (Cons p ps)
  then obtain b bs where "p = Resolved b" "ps = map Resolved bs" by auto
  then have "p # ps = map Resolved (b # bs)" by simp
  then show ?case by (rule exI [of _ "b # bs"])
qed

lemma toggleMuteState_cases:
  "toggleMuteState t h =
     (case find (\<lambda>u. tab_id u = t) (tabs h) of
        None \<Rightarrow> (Rejected (LastError no_tab), h)
      | Some u \<Rightarrow>
          (case mutedInfo u of
             None \<Rightarrow> (Pending, h)
           | Some mi \<Rightarrow>
               (case map_of (update_errors h) t of
                  Some msg \<Rightarrow> (Rejected (LastError msg), h)
                | None \<Rightarrow>
                    (Resolved (\<not> muted mi),
                     h\<lparr>tabs := map (\<lambda>u. if tab_id u = t then set_muted (\<not> muted mi) u else u)
                                  (tabs h)\<rparr>))))"
  by (simp add: toggleMuteState_def chrome_tabs_get_def chrome_tabs_update_def
      mutedInfo_set_muted Let_def split: option.splits)

lemma toggle_resolved:
  assumes "toggleMuteState t h = (Resolved b, h1)"
  shows "muted_of t h = Some (\<not> b)" and "muted_of t h1 = Some b"
    and "map_of (update_errors h1) t = None"
  using assms find_tab_id [of t "tabs h"]
  by (auto simp: toggleMuteState_cases muted_of_def find_map_set_muted mutedInfo_set_muted
      split: option.splits)

lemma toggle_resolves:
  assumes "muted_of t h = Some c" and "map_of (update_errors h) t = None"
  shows "fst (toggleMuteState t h) = Resolved (\<not> c)"
  using assms
  by (auto simp: toggleMuteState_cases muted_of_def split: option.splits)

lemma toggle_unsettled:
  assumes "toggleMuteState t h = (r, h1)" and "\<forall>b. r \<noteq> Resolved b"
  shows "h1 = h"
  using assms
  by (auto simp: toggleMuteState_cases split: option.splits)

lemma Resolved_outcome_no_error:
  "fst (setMuteState i m h) = Resolved b \<Longrightarrow> map_of (update_errors h) i = None \<and> b = m \<and> i \<in> tab_id ` set (tabs h)"
  by (auto simp: setMuteState_outcome split: option.splits if_splits)

lemma muteAllExcept_run:
  assumes "muteAllExcept x h = (result, h')" and "getAllTabs h = Inr allTabs"
  shows "result = Promise_all (fst (setMuteState_map True (filter (\<lambda>t. tab_id t \<noteq> x) allTabs) h))"
    and "h' = snd (setMuteState_map True (filter (\<lambda>t. tab_id t \<noteq> x) allTabs) h)"
  using assms by (auto simp: muteAllExcept_def split_beta Let_def)

lemma muteAll_run:
  assumes "muteAll h = (result, h')" and "getAllTabs h = Inr allTabs"
  shows "result = Promise_all (fst (setMuteState_map True allTabs h))"
    and "h' = snd (setMuteState_map True allTabs h)"
  using assms by (auto simp: muteAll_def split_beta Let_def)

lemma unmuteAll_run:
  assumes "unmuteAll h = (result, h')" and "getAllTabs h = Inr allTabs"
  shows "result = Promise_all (fst (setMuteState_map False allTabs h))"
    and "h' = snd (setMuteState_map False allTabs h)"
  using assms by (auto simp: unmuteAll_def split_beta Let_def)

lemma bulk_rejected_query:
  "getAllTabs h = Inl e \<Longrightarrow> muteAllExcept x h = (Rejected e, h) \<and> muteAll h = (Rejected e, h) \<and> unmuteAll h = (Rejected e, h)"
  by (simp add: muteAllExcept_def muteAll_def unmuteAll_def)

lemma find_map_except:
  "find (\<lambda>t. tab_id t = x) (map (\<lambda>t. if tab_id t = x then t else set_muted m t) ts) =
   find (\<lambda>t. tab_id t = x) ts"
  by (induction ts) (auto simp: tab_id_set_muted)

section \<open>Facts about the popup\<close>

lemma forEach_tab_rows:
  "map createTabElement ts = map Inr rows \<Longrightarrow>
     forEach_tab ts fragment = Inr (fragment @ map TabItem rows)"
proof (induction ts arbitrary: fragment rows)
  case Nil
  then show ?case by simp
next
  case (Cons t ts)
  then obtain r rs where "rows = r # rs" "createTabElement t = Inr r"
    "map createTabElement ts = map Inr rs"
    by (cases rows) auto
  with Cons.IH [of rs "fragment @ [TabItem r]"] show ?case by simp
qed

lemma createTabElement_rows:
  "\<forall>t\<in>set ts. mutedInfo t \<noteq> None \<Longrightarrow>
     \<exists>rows. map createTabElement ts = map Inr rows \<and> map dataset_tabId rows = map tab_id ts"
proof (induction ts)
  case Nil
  then show ?case by simp
next
  case (Cons t ts)
  then obtain rows where rows: "map createTabElement ts = map Inr rows"
    "map dataset_tabId rows = map tab_id ts"
    by auto
  from Cons.prems obtain r where r: "createTabElement t = Inr r" "dataset_tabId r = tab_id t"
    by (auto simp: createTabElement_def split: option.splits)
  from rows r have "map createTabElement (t # ts) = map Inr (r # rows) \<and>
      map dataset_tabId (r # rows) = map tab_id (t # ts)"
    by simp
  then show ?case by (rule exI [of _ "r # rows"])
qed

lemma updateGlobalMuteButton_label:
  "globalMuteButton_textContent (updateGlobalMuteButton h st) =
     (if allTabsMuted st then ''Unmute all''
      else if (case currentTab st of None \<Rightarrow> False | Some t \<Rightarrow> audible t) then ''Mute others''
      else ''Mute all'')"
  by (simp add: updateGlobalMuteButton_def checkAllTabsMutedState_def Let_def)

lemma failed_query_sets_flag_false:
  "checkAllTabsMutedState_resume (Inl e) st =
     st\<lparr>console_error := console_error st @ [(''Error checking muted state:'', e)],
        allTabsMuted := False\<rparr>"
  by (simp add: checkAllTabsMutedState_resume_def)

lemma failed_query_keeps_stale_label:
  assumes "getAllTabs h = Inl e" and "suspended st = []" and "allTabsMuted st"
  shows "globalMuteButton_textContent (settle (updateGlobalMuteButton h st)) = ''Unmute all''"
    and "globalMuteButton_unmute (settle (updateGlobalMuteButton h st))"
    and "\<not> allTabsMuted (settle (updateGlobalMuteButton h st))"
  using assms
  by (simp_all add: settle_def updateGlobalMuteButton_def checkAllTabsMutedState_def
      checkAllTabsMutedState_resume_def Let_def)

section \<open>The AllMuted flag\<close>

text \<open>
  C2. For a snapshot of all tabs with at least one tab, the flag that
  \<^verbatim>\<open>checkAllTabsMutedState\<close> derives from it is true exactly when every tab of the
  snapshot has \<^verbatim>\<open>muted = true\<close>; for the snapshot without tabs the flag is false.
\<close>

theorem allTabsMuted_iff_every_tab_muted:
  "(allTabs \<noteq> [] \<longrightarrow>
      (allTabsMuted (checkAllTabsMutedState_resume (Inr allTabs) st) \<longleftrightarrow>
       (\<forall>t\<in>set allTabs. \<exists>mi. mutedInfo t = Some mi \<and> muted mi))) \<and>
   \<not> allTabsMuted (checkAllTabsMutedState_resume (Inr []) st)"
  by (auto simp: checkAllTabsMutedState_resume_def list_all_iff split: option.splits)

theorem allTabsMuted_iff_every_tab_muted_witness:
  "allTabsMuted (checkAllTabsMutedState_resume (Inr [tab_mail, tab_radio]) doc_loading) \<and>
   \<not> allTabsMuted (checkAllTabsMutedState_resume (Inr [tab_music, tab_news]) doc_loading) \<and>
   \<not> allTabsMuted (checkAllTabsMutedState_resume (Inr []) doc_loading)"
proof -
  have ne: "[tab_mail, tab_radio] \<noteq> []" "[tab_music, tab_news] \<noteq> []"
    by simp_all
  have every: "\<forall>t\<in>set [tab_mail, tab_radio]. \<exists>mi. mutedInfo t = Some mi \<and> muted mi"
    by (simp add: tab_mail_def tab_radio_def)
  have some_not: "\<not> (\<forall>t\<in>set [tab_music, tab_news]. \<exists>mi. mutedInfo t = Some mi \<and> muted mi)"
    by (simp add: tab_music_def)
  from ne every some_not
    allTabsMuted_iff_every_tab_muted [of "[tab_mail, tab_radio]" doc_loading]
    allTabsMuted_iff_every_tab_muted [of "[tab_music, tab_news]" doc_loading]
  show ?thesis by blast
qed

text \<open>
  C10. The derivation reads \<^verbatim>\<open>mutedInfo.muted\<close> only behind the test of \<^verbatim>\<open>mutedInfo\<close>:
  on a snapshot that holds a record without \<^verbatim>\<open>mutedInfo\<close> it ends normally, logs
  nothing, and sets the flag to false, whatever the flags of the other tabs.
\<close>

theorem allTabsMuted_false_without_mutedInfo:
  assumes "\<exists>t\<in>set allTabs. mutedInfo t = None"
  shows "checkAllTabsMutedState_resume (Inr allTabs) st = st\<lparr>allTabsMuted := False\<rparr>"
proof -
  from assms obtain t where "t \<in> set allTabs" and "mutedInfo t = None"
    by blast
  then have "\<not> list_all (\<lambda>tab. case mutedInfo tab of None \<Rightarrow> False | Some mi \<Rightarrow> muted mi)
                 allTabs"
    by (auto simp: list_all_iff intro!: bexI [of _ t])
  then show ?thesis
    by (simp add: checkAllTabsMutedState_resume_def)
qed

theorem allTabsMuted_false_without_mutedInfo_witness:
  "mutedInfo tab_mail = Some \<lparr>muted = True\<rparr> \<and> mutedInfo tab_radio = Some \<lparr>muted = True\<rparr> \<and>
   mutedInfo tab_bare = None \<and>
   checkAllTabsMutedState_resume (Inr [tab_mail, tab_bare, tab_radio]) doc_loading =
     doc_loading\<lparr>allTabsMuted := False\<rparr>"
proof -
  have lacks: "\<exists>t\<in>set [tab_mail, tab_bare, tab_radio]. mutedInfo t = None"
    by (simp add: tab_bare_def)
  have others: "mutedInfo tab_mail = Some \<lparr>muted = True\<rparr>"
    "mutedInfo tab_radio = Some \<lparr>muted = True\<rparr>" "mutedInfo tab_bare = None"
    by (simp_all add: tab_mail_def tab_bare_def tab_radio_def)
  from others allTabsMuted_false_without_mutedInfo [OF lacks, of doc_loading]
  show ?thesis by blast
qed

section \<open>The active tab\<close>

text \<open>
  C7. \<^verbatim>\<open>getCurrentTab\<close> is rejected with the error "No active tab found" exactly when
  the host's query for the active tab of the current window answers with no tab; when
  the query answers with at least one tab, it resolves with the first of them.
\<close>

theorem getCurrentTab_no_active_tab:
  "(getCurrentTab h = Inl (Error ''No active tab found'') \<longleftrightarrow>
      chrome_tabs_query ActiveInCurrentWindow h = Inr []) \<and>
   (\<forall>t ts. chrome_tabs_query ActiveInCurrentWindow h = Inr (t # ts) \<longrightarrow>
      getCurrentTab h = Inr t)"
  by (auto simp: getCurrentTab_def no_active_tab_def split: sum.splits list.splits)

theorem getCurrentTab_no_active_tab_witness:
  "getCurrentTab host_empty = Inl (Error ''No active tab found'') \<and>
   getCurrentTab host_scenario = Inr tab_music"
proof -
  have none: "chrome_tabs_query ActiveInCurrentWindow host_empty = Inr []"
    by (simp add: chrome_tabs_query_def host_empty_def host_of_def)
  have one: "chrome_tabs_query ActiveInCurrentWindow host_scenario = Inr (tab_music # [])"
    by (simp add: chrome_tabs_query_def sample_defs)
  from none one getCurrentTab_no_active_tab [of host_empty]
    getCurrentTab_no_active_tab [of host_scenario]
  show ?thesis by blast
qed

section \<open>Toggling one tab\<close>

text \<open>
  C3. Two calls of \<^verbatim>\<open>toggleMuteState\<close> on the same tab, the second made on the host
  as the first left it (nothing else touches the host in between), leave the tab's
  muted flag as it was. When the first call resolves with \<open>b\<close>, the flag was \<open>\<not> b\<close>
  before, is \<open>b\<close> in between, and the second call resolves with \<open>\<not> b\<close>.
\<close>

theorem toggleMuteState_involution:
  assumes first: "toggleMuteState t h = (r1, h1)" and second: "toggleMuteState t h1 = (r2, h2)"
  shows "muted_of t h2 = muted_of t h \<and>
         (\<forall>b. r1 = Resolved b \<longrightarrow>
              muted_of t h = Some (\<not> b) \<and> muted_of t h1 = Some b \<and> r2 = Resolved (\<not> b))"
proof (cases "\<exists>b. r1 = Resolved b")
  case True
  then obtain b where r1: "r1 = Resolved b" ..
  note a = toggle_resolved [OF first [unfolded r1]]
  from toggle_resolves [OF a(2) a(3)] second have r2: "r2 = Resolved (\<not> b)"
    by simp
  note c = toggle_resolved [OF second [unfolded r2]]
  from a c r1 r2 show ?thesis by simp
next
  case False
  then have no1: "\<forall>b. r1 \<noteq> Resolved b" by simp
  from toggle_unsettled [OF first no1] have h1: "h1 = h" .
  with first second have "r2 = r1" by simp
  with no1 toggle_unsettled [OF second] h1 have "h2 = h" by simp
  with False show ?thesis by simp
qed

theorem toggleMuteState_involution_witness:
  "muted_of 1 host_scenario = Some False \<and>
   fst (toggleMuteState 1 host_scenario) = Resolved True \<and>
   muted_of 1 (snd (toggleMuteState 1 host_scenario)) = Some True \<and>
   fst (toggleMuteState 1 (snd (toggleMuteState 1 host_scenario))) = Resolved False \<and>
   muted_of 1 (snd (toggleMuteState 1 (snd (toggleMuteState 1 host_scenario)))) = Some False"
proof -
  let ?first = "toggleMuteState 1 host_scenario"
  let ?second = "toggleMuteState 1 (snd ?first)"
  have before: "muted_of 1 host_scenario = Some False"
    by (simp add: muted_of_def sample_defs)
  have r1: "fst ?first = Resolved True"
    by (simp add: toggleMuteState_cases sample_defs)
  have p1: "?first = (fst ?first, snd ?first)" and p2: "?second = (fst ?second, snd ?second)"
    by simp_all
  note twice = toggleMuteState_involution [OF p1 p2]
  from twice have restored: "muted_of 1 (snd ?second) = muted_of 1 host_scenario"
    by (rule conjunct1)
  from twice r1 have between: "muted_of 1 (snd ?first) = Some True \<and> fst ?second = Resolved (\<not> True)"
    by blast
  from before r1 restored between show ?thesis by simp
qed

section \<open>Bulk operations\<close>

text \<open>
  C4. When \<^verbatim>\<open>muteAllExcept(x)\<close> resolves, the host's table is the table before the call
  with every tab whose identifier is not \<open>x\<close> set to \<^verbatim>\<open>muted = true\<close> and every tab
  with identifier \<open>x\<close> as it was: the flag of \<open>x\<close> is unchanged and every other tab is
  muted.
\<close>

theorem muteAllExcept_frame:
  assumes run: "muteAllExcept x h = (Resolved results, h')"
  shows "tabs h' = map (\<lambda>t. if tab_id t = x then t else t\<lparr>mutedInfo := Some \<lparr>muted = True\<rparr>\<rparr>) (tabs h) \<and>
         muted_of x h' = muted_of x h \<and>
         (\<forall>t\<in>set (tabs h'). tab_id t \<noteq> x \<longrightarrow> mutedInfo t = Some \<lparr>muted = True\<rparr>)"
proof -
  let ?ts = "filter (\<lambda>t. tab_id t \<noteq> x) (tabs h)"
  from run obtain allTabs where q: "getAllTabs h = Inr allTabs"
    by (cases "getAllTabs h") (auto simp: bulk_rejected_query)
  then have all: "allTabs = tabs h" by (rule getAllTabs_Inr)
  note r = muteAllExcept_run [OF run q, unfolded all]
  from r(1) have "fst (setMuteState_map True ?ts h) = map Resolved results"
    by (simp add: Promise_all_Resolved)
  then have "map (\<lambda>t. fst (setMuteState (tab_id t) True h)) ?ts = map Resolved results"
    by (simp add: setMuteState_map_outcomes)
  then have "\<forall>t\<in>set ?ts. \<exists>b. fst (setMuteState (tab_id t) True h) = Resolved b"
    by (metis (no_types, lifting) in_set_conv_nth length_map nth_map)
  then have ok: "\<forall>t\<in>set ?ts. map_of (update_errors h) (tab_id t) = None"
    by (blast dest: Resolved_outcome_no_error)
  have "tabs h' = map (\<lambda>t. if tab_id t \<in> tab_id ` set ?ts \<and> map_of (update_errors h) (tab_id t) = None
                            then set_muted True t else t) (tabs h)"
    by (simp add: r(2) setMuteState_map_host)
  also have "\<dots> = map (\<lambda>t. if tab_id t = x then t else set_muted True t) (tabs h)"
    using ok by (intro map_cong refl) auto
  finally have eq: "tabs h' = map (\<lambda>t. if tab_id t = x then t else set_muted True t) (tabs h)" .
  have frame: "muted_of x h' = muted_of x h"
    by (simp only: muted_of_def eq find_map_except)
  have others: "\<forall>t\<in>set (tabs h'). tab_id t \<noteq> x \<longrightarrow> mutedInfo t = Some \<lparr>muted = True\<rparr>"
    unfolding eq by (auto simp: mutedInfo_set_muted tab_id_set_muted)
  from eq have "tabs h' = map (\<lambda>t. if tab_id t = x then t else t\<lparr>mutedInfo := Some \<lparr>muted = True\<rparr>\<rparr>) (tabs h)"
    by (simp only: set_muted_def)
  with frame others show ?thesis
    by (intro conjI)
qed

theorem muteAllExcept_frame_witness:
  "fst (muteAllExcept 1 host_playing) = Resolved [True] \<and>
   muted_of 1 host_playing = Some False \<and>
   muted_of 1 (snd (muteAllExcept 1 host_playing)) = Some False \<and>
   tabs (snd (muteAllExcept 1 host_playing)) =
     [tab_music, tab_video\<lparr>mutedInfo := Some \<lparr>muted = True\<rparr>\<rparr>]"
proof -
  have q: "getAllTabs host_playing = Inr [tab_music, tab_video]"
    by (simp add: getAllTabs_def chrome_tabs_query_def host_playing_def host_of_def)
  have u: "fst (setMuteState_map True [tab_video] host_playing) = [Resolved True]"
    unfolding setMuteState_map_outcomes
    by (simp add: setMuteState_outcome sample_defs)
  have "fst (muteAllExcept 1 host_playing) =
      Promise_all (fst (setMuteState_map True
        (filter (\<lambda>t. tab_id t \<noteq> 1) [tab_music, tab_video]) host_playing))"
    by (rule muteAllExcept_run(1) [OF prod.collapse [symmetric] q])
  also have "filter (\<lambda>t. tab_id t \<noteq> 1) [tab_music, tab_video] = [tab_video]"
    by (simp add: tab_music_def tab_video_def)
  finally have r: "fst (muteAllExcept 1 host_playing) = Resolved [True]"
    unfolding u by simp
  then have run: "muteAllExcept 1 host_playing = (Resolved [True], snd (muteAllExcept 1 host_playing))"
    by (simp add: prod_eq_iff)
  have before: "muted_of 1 host_playing = Some False"
    by (simp add: muted_of_def sample_defs)
  have table: "map (\<lambda>t. if tab_id t = 1 then t else t\<lparr>mutedInfo := Some \<lparr>muted = True\<rparr>\<rparr>)
      (tabs host_playing) = [tab_music, tab_video\<lparr>mutedInfo := Some \<lparr>muted = True\<rparr>\<rparr>]"
    by (simp add: sample_defs)
  from muteAllExcept_frame [OF run] r before table show ?thesis
    by simp
qed

text \<open>
  C5. A bulk operation that has fetched the tabs sends one update per qualifying tab
  and joins them. If every update resolves, the operation resolves with the list of the
  values the host confirmed. If one update is rejected, the operation is rejected. In
  both cases every tab whose own update resolved holds the new value afterwards:
  nothing is rolled back.
\<close>

theorem bulk_fail_fast_no_rollback:
  assumes q: "getAllTabs h = Inr allTabs"
    and op: "(run, m, qualifying) \<in>
               {(muteAll h, True, allTabs), (unmuteAll h, False, allTabs),
                (muteAllExcept x h, True, filter (\<lambda>t. tab_id t \<noteq> x) allTabs)}"
    and run: "run = (result, h')"
    and updates: "updates = fst (setMuteState_map m qualifying h)"
  shows "((\<forall>p\<in>set updates. \<exists>b. p = Resolved b) \<longrightarrow>
            (\<exists>bs. result = Resolved bs \<and> updates = map Resolved bs)) \<and>
         ((\<exists>e. Rejected e \<in> set updates) \<longrightarrow> (\<exists>e. result = Rejected e)) \<and>
         (\<forall>k<length qualifying. (\<exists>b. updates ! k = Resolved b) \<longrightarrow>
            muted_of (tab_id (qualifying ! k)) h' = Some m)"
proof -
  from op run have "muteAll h = (result, h') \<and> m = True \<and> qualifying = allTabs \<or>
      unmuteAll h = (result, h') \<and> m = False \<and> qualifying = allTabs \<or>
      muteAllExcept x h = (result, h') \<and> m = True \<and> qualifying = filter (\<lambda>t. tab_id t \<noteq> x) allTabs"
    by auto
  then have joined: "result = Promise_all updates" and host: "h' = snd (setMuteState_map m qualifying h)"
    using muteAll_run [OF _ q] unmuteAll_run [OF _ q] muteAllExcept_run [OF _ q] updates
    by auto
  have all_ok: "(\<forall>p\<in>set updates. \<exists>b. p = Resolved b) \<longrightarrow>
            (\<exists>bs. result = Resolved bs \<and> updates = map Resolved bs)"
  proof
    assume "\<forall>p\<in>set updates. \<exists>b. p = Resolved b"
    then obtain bs where bs: "updates = map Resolved bs"
      using all_Resolved_map by blast
    with joined have "result = Resolved bs"
      by (simp add: Promise_all_map_Resolved)
    with bs show "\<exists>bs. result = Resolved bs \<and> updates = map Resolved bs"
      by blast
  qed
  have one_fails: "(\<exists>e. Rejected e \<in> set updates) \<longrightarrow> (\<exists>e. result = Rejected e)"
    using joined Promise_all_Rejected by blast
  have kept: "\<forall>k<length qualifying. (\<exists>b. updates ! k = Resolved b) \<longrightarrow>
            muted_of (tab_id (qualifying ! k)) h' = Some m"
  proof (intro allI impI)
    fix k
    assume k: "k < length qualifying" and "\<exists>b. updates ! k = Resolved b"
    then obtain b where "updates ! k = Resolved b" by blast
    with k updates have "fst (setMuteState (tab_id (qualifying ! k)) m h) = Resolved b"
      by (simp add: setMuteState_map_outcomes)
    then have free: "map_of (update_errors h) (tab_id (qualifying ! k)) = None"
      and there: "tab_id (qualifying ! k) \<in> tab_id ` set (tabs h)"
      by (auto dest: Resolved_outcome_no_error)
    from there obtain u where u: "find (\<lambda>t. tab_id t = tab_id (qualifying ! k)) (tabs h) = Some u"
      by (cases "find (\<lambda>t. tab_id t = tab_id (qualifying ! k)) (tabs h)")
        (auto simp: find_None_iff_id)
    from k have among: "tab_id (qualifying ! k) \<in> tab_id ` set qualifying"
      by simp
    have "find (\<lambda>t. tab_id t = tab_id (qualifying ! k)) (tabs h') = Some (set_muted m u)"
      unfolding host setMuteState_map_host
      using find_map_by_id [of "tab_id (qualifying ! k)"
          "\<lambda>i. i \<in> tab_id ` set qualifying \<and> map_of (update_errors h) i = None" m "tabs h"]
        u free among
      by simp
    then show "muted_of (tab_id (qualifying ! k)) h' = Some m"
      by (simp add: muted_of_def mutedInfo_set_muted)
  qed
  from all_ok one_fails kept show ?thesis by (intro conjI)
qed

theorem bulk_fail_fast_no_rollback_witness:
  "fst (muteAll host_busy) = Rejected (LastError ''Tabs cannot be edited right now'') \<and>
   muted_of 6 host_busy = Some False \<and>
   muted_of 6 (snd (muteAll host_busy)) = Some True \<and>
   fst (unmuteAll host_scenario) = Resolved [False, False]"
proof -
  have q1: "getAllTabs host_busy = Inr [tab_music, tab_video]"
    by (simp add: getAllTabs_def chrome_tabs_query_def host_busy_def)
  have op1: "(muteAll host_busy, True, [tab_music, tab_video]) \<in>
      {(muteAll host_busy, True, [tab_music, tab_video]),
       (unmuteAll host_busy, False, [tab_music, tab_video]),
       (muteAllExcept 0 host_busy, True, filter (\<lambda>t. tab_id t \<noteq> 0) [tab_music, tab_video])}"
    by simp
  have u1: "fst (setMuteState_map True [tab_music, tab_video] host_busy) =
      [Rejected (LastError ''Tabs cannot be edited right now''), Resolved True]"
    unfolding setMuteState_map_outcomes
    by (simp add: setMuteState_outcome host_busy_def tab_music_def tab_video_def)
  note busy = bulk_fail_fast_no_rollback [OF q1 op1 prod.collapse [symmetric] u1 [symmetric]]
  have "fst (muteAll host_busy) =
      Promise_all (fst (setMuteState_map True [tab_music, tab_video] host_busy))"
    by (rule muteAll_run(1) [OF prod.collapse [symmetric] q1])
  then have rejected:
    "fst (muteAll host_busy) = Rejected (LastError ''Tabs cannot be edited right now'')"
    unfolding u1 by simp
  have kept: "muted_of (tab_id ([tab_music, tab_video] ! 1)) (snd (muteAll host_busy)) = Some True"
    by (rule busy [THEN conjunct2, THEN conjunct2, rule_format, of 1]) auto
  have q2: "getAllTabs host_scenario = Inr [tab_music, tab_news]"
    by (simp add: getAllTabs_def chrome_tabs_query_def host_scenario_def host_of_def)
  have op2: "(unmuteAll host_scenario, False, [tab_music, tab_news]) \<in>
      {(muteAll host_scenario, True, [tab_music, tab_news]),
       (unmuteAll host_scenario, False, [tab_music, tab_news]),
       (muteAllExcept 0 host_scenario, True, filter (\<lambda>t. tab_id t \<noteq> 0) [tab_music, tab_news])}"
    by simp
  have u2: "fst (setMuteState_map False [tab_music, tab_news] host_scenario) =
      [Resolved False, Resolved False]"
    unfolding setMuteState_map_outcomes
    by (simp add: setMuteState_outcome sample_defs)
  from bulk_fail_fast_no_rollback [OF q2 op2 prod.collapse [symmetric] u2 [symmetric]]
  have resolved: "fst (unmuteAll host_scenario) = Resolved [False, False]"
    by (auto simp: map_eq_Cons_conv)
  have before: "muted_of 6 host_busy = Some False"
    by (simp add: muted_of_def host_busy_def tab_music_def tab_video_def)
  from rejected before kept resolved show ?thesis
    by (simp add: tab_video_def)
qed

section \<open>The rows of the list\<close>

text \<open>
  C6. When the toggle of a row's tab is rejected, \<^verbatim>\<open>toggleMute\<close> logs the error and
  changes nothing else: the row's button title and icon, the other rows and the global
  button stay as they were. The children of the list change only when the toggle
  resolved, and then the row at \<open>i\<close> shows the value \<open>b\<close> the host confirmed, which is
  the flag the host holds for the tab afterwards.
\<close>

theorem toggleMute_failure_keeps_row:
  "(\<forall>e. fst (toggleMuteState t h) = Rejected e \<longrightarrow>
      snd (toggleMute t i h st) =
        st\<lparr>console_error := console_error st @ [(''Error toggling mute state:'', e)]\<rparr>) \<and>
   (tabsList (snd (toggleMute t i h st)) \<noteq> tabsList st \<longrightarrow>
      (\<exists>b. fst (toggleMuteState t h) = Resolved b \<and>
           muted_of t (fst (toggleMute t i h st)) = Some b \<and>
           tabsList (snd (toggleMute t i h st)) =
             (tabsList st)[i := set_mute_control b (tabsList st ! i)]))"
proof (cases "toggleMuteState t h")
  case (Pair r h')
  show ?thesis
  proof (cases r)
    case (Resolved b)
    with Pair have "muted_of t h' = Some b"
      by (simp add: toggle_resolved(2))
    with Pair Resolved show ?thesis
      by (simp add: toggleMute_def updateGlobalMuteButton_def checkAllTabsMutedState_def Let_def)
  next
    case (Rejected e)
    with Pair show ?thesis
      by (simp add: toggleMute_def)
  next
    case Pending
    with Pair show ?thesis
      by (simp add: toggleMute_def)
  qed
qed

theorem toggleMute_failure_keeps_row_witness:
  "fst (toggleMuteState 1 host_busy) = Rejected (LastError ''Tabs cannot be edited right now'') \<and>
   tabsList (snd (toggleMute 1 0 host_busy popup_busy)) = tabsList popup_busy \<and>
   console_error (snd (toggleMute 1 0 host_busy popup_busy)) =
     [(''Error toggling mute state:'', LastError ''Tabs cannot be edited right now'')] \<and>
   fst (toggleMuteState 6 host_busy) = Resolved True \<and>
   tabsList (snd (toggleMute 6 1 host_busy popup_busy)) \<noteq> tabsList popup_busy \<and>
   muted_of 6 (fst (toggleMute 6 1 host_busy popup_busy)) = Some True"
proof -
  have rejected:
    "fst (toggleMuteState 1 host_busy) = Rejected (LastError ''Tabs cannot be edited right now'')"
    by (simp add: toggleMuteState_cases sample_defs)
  have no_log: "console_error popup_busy = []"
    by (simp add: popup_busy_def DOMContentLoaded_def initializePopup_def getCurrentTab_def
        chrome_tabs_query_def loadSoundTabs_def getSoundTabs_def renderTabsList_def
        createTabElement_def updateGlobalMuteButton_def checkAllTabsMutedState_def settle_def
        checkAllTabsMutedState_resume_def getAllTabs_def sample_defs)
  from toggleMute_failure_keeps_row [of 1 host_busy 0 popup_busy] rejected
  have "snd (toggleMute 1 0 host_busy popup_busy) =
      popup_busy\<lparr>console_error := console_error popup_busy @
        [(''Error toggling mute state:'', LastError ''Tabs cannot be edited right now'')]\<rparr>"
    by blast
  then have kept: "tabsList (snd (toggleMute 1 0 host_busy popup_busy)) = tabsList popup_busy"
    and logged: "console_error (snd (toggleMute 1 0 host_busy popup_busy)) =
      [(''Error toggling mute state:'', LastError ''Tabs cannot be edited right now'')]"
    using no_log by simp_all
  have resolved: "fst (toggleMuteState 6 host_busy) = Resolved True"
    by (simp add: toggleMuteState_cases sample_defs)
  have changed: "tabsList (snd (toggleMute 6 1 host_busy popup_busy)) \<noteq> tabsList popup_busy"
    by (simp add: toggleMute_def toggleMuteState_cases updateGlobalMuteButton_def
        checkAllTabsMutedState_def
        popup_busy_def DOMContentLoaded_def initializePopup_def getCurrentTab_def
        chrome_tabs_query_def loadSoundTabs_def getSoundTabs_def renderTabsList_def
        createTabElement_def settle_def
        checkAllTabsMutedState_resume_def getAllTabs_def sample_defs)
  from toggleMute_failure_keeps_row [of 6 host_busy 1 popup_busy] changed resolved
  have confirmed: "muted_of 6 (fst (toggleMute 6 1 host_busy popup_busy)) = Some True"
    by auto
  from rejected kept logged resolved changed confirmed show ?thesis
    by (intro conjI)
qed

text \<open>
  C8, as amended. For the empty list of audible tabs \<^verbatim>\<open>renderTabsList\<close> leaves exactly
  the "quiet" placeholder and no row. For a non-empty list in which every record
  carries \<^verbatim>\<open>mutedInfo\<close> it leaves exactly the rows that \<^verbatim>\<open>createTabElement\<close> builds,
  one per tab, in the order of the list.
\<close>

theorem renderTabsList_rows:
  "renderTabsList [] st = (None, st\<lparr>tabsList := [NoSoundTabs ''Everything's quiet.'']\<rparr>) \<and>
   (ts \<noteq> [] \<and> (\<forall>t\<in>set ts. mutedInfo t \<noteq> None) \<longrightarrow>
      (\<exists>rows. renderTabsList ts st = (None, st\<lparr>tabsList := map TabItem rows\<rparr>) \<and>
              map createTabElement ts = map Inr rows \<and>
              map dataset_tabId rows = map tab_id ts))"
proof (intro conjI impI)
  show "renderTabsList [] st = (None, st\<lparr>tabsList := [NoSoundTabs ''Everything's quiet.'']\<rparr>)"
    by (simp add: renderTabsList_def)
next
  assume a: "ts \<noteq> [] \<and> (\<forall>t\<in>set ts. mutedInfo t \<noteq> None)"
  then obtain rows where rows: "map createTabElement ts = map Inr rows"
    "map dataset_tabId rows = map tab_id ts"
    using createTabElement_rows by blast
  from a rows(1) have "renderTabsList ts st = (None, st\<lparr>tabsList := map TabItem rows\<rparr>)"
    by (simp add: renderTabsList_def forEach_tab_rows)
  with rows show "\<exists>rows. renderTabsList ts st = (None, st\<lparr>tabsList := map TabItem rows\<rparr>) \<and>
              map createTabElement ts = map Inr rows \<and>
              map dataset_tabId rows = map tab_id ts"
    by blast
qed

theorem renderTabsList_rows_witness:
  "renderTabsList [] doc_loading =
     (None, doc_loading\<lparr>tabsList := [NoSoundTabs ''Everything's quiet.'']\<rparr>) \<and>
   renderTabsList [tab_music, tab_news] doc_loading =
     (None, doc_loading\<lparr>tabsList :=
        [TabItem \<lparr>dataset_tabId = 1, favicon_src = ''icons/default-favicon.png'',
                  title_textContent = ''Music'', title_title = ''Music'',
                  muteButton_title = ''Mute'', muteIcon_src = ''icons/mute.png''\<rparr>,
         TabItem \<lparr>dataset_tabId = 2, favicon_src = ''icons/default-favicon.png'',
                  title_textContent = ''News'', title_title = ''News'',
                  muteButton_title = ''Unmute'', muteIcon_src = ''icons/unmute.png''\<rparr>]\<rparr>)"
proof -
  let ?r1 = "\<lparr>dataset_tabId = 1, favicon_src = ''icons/default-favicon.png'',
                  title_textContent = ''Music'', title_title = ''Music'',
                  muteButton_title = ''Mute'', muteIcon_src = ''icons/mute.png''\<rparr>"
  let ?r2 = "\<lparr>dataset_tabId = 2, favicon_src = ''icons/default-favicon.png'',
                  title_textContent = ''News'', title_title = ''News'',
                  muteButton_title = ''Unmute'', muteIcon_src = ''icons/unmute.png''\<rparr>"
  have hyp: "[tab_music, tab_news] \<noteq> [] \<and> (\<forall>t\<in>set [tab_music, tab_news]. mutedInfo t \<noteq> None)"
    by (simp add: tab_music_def tab_news_def)
  have built: "map createTabElement [tab_music, tab_news] = map Inr [?r1, ?r2]"
    by (simp add: createTabElement_def default_favicon_def tab_music_def tab_news_def)
  from renderTabsList_rows [of doc_loading "[tab_music, tab_news]"] hyp
  obtain rows where rows: "renderTabsList [tab_music, tab_news] doc_loading =
        (None, doc_loading\<lparr>tabsList := map TabItem rows\<rparr>)"
      "map createTabElement [tab_music, tab_news] = map Inr rows"
    by blast
  from rows(2) built have "map Inr rows = (map Inr [?r1, ?r2] :: (error + row) list)"
    by simp
  then have "rows = [?r1, ?r2]"
    by (auto simp: map_eq_Cons_conv)
  with rows(1) renderTabsList_rows [of doc_loading "[tab_music, tab_news]"]
  show ?thesis by simp
qed

text \<open>
  C8 as stated fails on a non-empty list that holds a record without \<^verbatim>\<open>mutedInfo\<close>:
  \<^verbatim>\<open>createTabElement\<close> throws at line 165, the list is left without any row, and
  \<^verbatim>\<open>loadSoundTabs\<close> replaces it with the error message.
\<close>

theorem renderTabsList_counterexample:
  "renderTabsList [tab_bare] doc_loading = (Some undefined_muted, doc_loading\<lparr>tabsList := []\<rparr>) \<and>
   tabsList (loadSoundTabs (host_of [tab_bare]) doc_loading) =
     [ErrorDiv (''Error loading tabs: '' @ message undefined_muted)]"
  by (simp add: renderTabsList_def createTabElement_def loadSoundTabs_def getSoundTabs_def
      chrome_tabs_query_def sample_defs)

section \<open>The global button\<close>

text \<open>
  C9. When the query of all tabs that \<^verbatim>\<open>checkAllTabsMutedState\<close> has sent fails, the
  call logs the error and sets the flag to false, and nothing is thrown to the caller
  (lemma \<open>failed_query_sets_flag_false\<close>). The button does not follow:
  \<^verbatim>\<open>checkAllTabsMutedState\<close> is called only from \<^verbatim>\<open>updateGlobalMuteButton\<close>, which has
  drawn the label from the flag as it stood before the reply (lemma
  \<open>failed_query_keeps_stale_label\<close>). On the host whose two tabs are muted, once the
  popup has opened and the flag is true, let the query of all tabs begin to fail and
  the mute button of the row be clicked: the toggle succeeds, the query fails, the flag
  ends false and the error is logged, and the button shows "Unmute all" with the
  \<^verbatim>\<open>unmute\<close> class.
\<close>

theorem failed_query_shows_unmute_all:
  "allTabsMuted popup_all_muted \<and>
   getAllTabs host_offline = Inl (LastError ''Extension context invalidated'') \<and>
   globalMuteButton_textContent (snd (muteButton_click 0 host_offline popup_all_muted)) =
     ''Unmute all'' \<and>
   globalMuteButton_unmute (snd (muteButton_click 0 host_offline popup_all_muted)) \<and>
   \<not> allTabsMuted (snd (muteButton_click 0 host_offline popup_all_muted)) \<and>
   console_error (snd (muteButton_click 0 host_offline popup_all_muted)) =
     [(''Error checking muted state:'', LastError ''Extension context invalidated'')]"
  by code_simp

text \<open>
  C1. The label that \<^verbatim>\<open>updateGlobalMuteButton\<close> draws is computed from the flag as it
  stands before the reply to the query it has just sent (lemma
  \<open>updateGlobalMuteButton_label\<close>: the host does not occur on the right). On a host
  whose two tabs are both muted the popup therefore opens with "Mute all" while the
  flag, once derived, is true; the click that follows unmutes both tabs and the label,
  drawn after the action succeeded, says "Unmute all" while no tab is muted.
\<close>

theorem label_drawn_from_stale_flag:
  "muted_of 3 host_all_muted = Some True \<and> muted_of 4 host_all_muted = Some True \<and>
   map tab_id (tabs host_all_muted) = [3, 4] \<and>
   globalMuteButton_textContent
     (DOMContentLoaded host_all_muted [Markup ''Loading...''] [] False) = ''Mute all'' \<and>
   allTabsMuted (DOMContentLoaded host_all_muted [Markup ''Loading...''] [] False) \<and>
   tabs (fst (globalMuteButton_click host_all_muted popup_all_muted)) =
     [tab_mail\<lparr>mutedInfo := Some \<lparr>muted = False\<rparr>\<rparr>, tab_radio\<lparr>mutedInfo := Some \<lparr>muted = False\<rparr>\<rparr>] \<and>
   globalMuteButton_textContent (snd (globalMuteButton_click host_all_muted popup_all_muted)) =
     ''Unmute all'' \<and>
   \<not> allTabsMuted (snd (globalMuteButton_click host_all_muted popup_all_muted))"
  by code_simp

end
